theory Spec2Isabelle
  imports Main "HOL-Library.AList" "HOL-Library.Word"
begin

section \<open>Locations (shared.ts, lines 29-63)\<close>

text \<open>
  The tool addresses three kinds of endpoint. The TypeScript union
  \<^verbatim>\<open>LocationAutomerge | LocationFile | LocationPipe\<close> is a datatype with one
  constructor per member; the \<^verbatim>\<open>type\<close> tag of the source is the constructor.
  JavaScript strings are modelled as \<^typ>\<open>string\<close>.
\<close>

datatype location =
  LocationAutomerge string "string list"
| LocationFile string
| LocationPipe

datatype valuetype = Fs | Raw | Json

text \<open>\<^verbatim>\<open>s.startsWith(p)\<close>.\<close>

definition startsWith :: "string \<Rightarrow> string \<Rightarrow> bool" where
  "startsWith s p = (take (length p) s = p)"

text \<open>
  \<^verbatim>\<open>s.split(sep)\<close> for a separator of one character: the pieces between the
  occurrences of the separator, in order; the empty string gives one empty piece.
  The result is never empty, so the first case of the inner \<open>case\<close> is never taken.
\<close>

fun String_split :: "string \<Rightarrow> char \<Rightarrow> string list" where
  "String_split [] sep = [[]]"
| "String_split (c # cs) sep =
     (if c = sep then [] # String_split cs sep
      else (case String_split cs sep of
              [] \<Rightarrow> [[c]]
            | piece # pieces \<Rightarrow> (c # piece) # pieces))"

text \<open>\<^verbatim>\<open>xs.join(sep)\<close> on an array of strings.\<close>

fun Array_join :: "string list \<Rightarrow> string \<Rightarrow> string" where
  "Array_join [] sep = []"
| "Array_join [x] sep = x"
| "Array_join (x # y # ys) sep = x @ sep @ Array_join (y # ys) sep"

text \<open>
  \<^verbatim>\<open>parseLocation\<close>. The destructuring \<^verbatim>\<open>const [docUrl, ...path] = s.split("/")\<close>
  takes the first piece and the rest; \<^verbatim>\<open>split\<close> never returns an empty array
  (lemma \<open>String_split_not_Nil\<close>), so the first case of the \<open>case\<close> below is
  never taken.
\<close>

definition parseLocation :: "string \<Rightarrow> location" where
  "parseLocation s =
     (if s = ''-'' then LocationPipe
      else if startsWith s ''automerge:'' then
        (case String_split s (CHR ''/'') of
           [] \<Rightarrow> LocationAutomerge ''undefined'' []
         | docUrl # path \<Rightarrow> LocationAutomerge docUrl path)
      else LocationFile s)"

text \<open>
  \<^verbatim>\<open>stringifyLocation\<close>. For a pipe the source returns \<^verbatim>\<open>l.type\<close>, which is the
  tag \<^verbatim>\<open>"pipe"\<close>.
\<close>

definition stringifyLocation :: "location \<Rightarrow> string" where
  "stringifyLocation l =
     (case l of
        LocationAutomerge docUrl path \<Rightarrow> Array_join (docUrl # path) ''/''
      | LocationFile path \<Rightarrow> path
      | LocationPipe \<Rightarrow> ''pipe'')"

section \<open>JavaScript values\<close>

text \<open>
  The values the tool copies come from a document snapshot or from \<^verbatim>\<open>JSON.parse\<close>:
  \<^verbatim>\<open>undefined\<close>, \<^verbatim>\<open>null\<close>, booleans, numbers, strings, byte arrays
  (\<^verbatim>\<open>Uint8Array\<close>), arrays and plain objects. They are trees: no object is shared
  between two places and none contains itself. An object is the list of its own
  enumerable properties in enumeration order, with pairwise distinct keys, and its
  prototype is the built-in one of its kind. Numbers are modelled by the integers.

  The built-in prototype objects are values too, because reading the key
  \<^verbatim>\<open>__proto__\<close> returns one. The functions that the prototypes hold are not values
  of the model.
\<close>

datatype prototype =
  ObjectPrototype
| ArrayPrototype
| TypedArrayPrototype
| Uint8ArrayPrototype
| StringPrototype
| NumberPrototype
| BooleanPrototype

datatype jsval =
  JUndefined
| JNull
| JBool bool
| JNum int
| JStr string
| JBytes "8 word list"
| JArr "jsval list"
| JObj "(string \<times> jsval) list"
| JProto prototype

text \<open>
  The errors a call can raise. \<open>Unmodelled\<close> is not an error of the program: it marks
  a step whose result is not a value of the model (a built-in function, an object with
  a replaced prototype, an array with holes). A result that carries it says nothing
  about what the program does.
\<close>

datatype error = AMTError string | TypeError string | Error string | Unmodelled string

text \<open>\<^verbatim>\<open>typeof v\<close> and the truthiness of a value (\<^verbatim>\<open>!!v\<close>).\<close>

fun typeof :: "jsval \<Rightarrow> string" where
  "typeof JUndefined = ''undefined''"
| "typeof JNull = ''object''"
| "typeof (JBool b) = ''boolean''"
| "typeof (JNum n) = ''number''"
| "typeof (JStr s) = ''string''"
| "typeof (JBytes bs) = ''object''"
| "typeof (JArr xs) = ''object''"
| "typeof (JObj kvs) = ''object''"
| "typeof (JProto p) = ''object''"

fun truthy :: "jsval \<Rightarrow> bool" where
  "truthy JUndefined = False"
| "truthy JNull = False"
| "truthy (JBool b) = b"
| "truthy (JNum n) = (n \<noteq> 0)"
| "truthy (JStr s) = (s \<noteq> [])"
| "truthy (JBytes bs) = True"
| "truthy (JArr xs) = True"
| "truthy (JObj kvs) = True"
| "truthy (JProto p) = True"

fun instanceof_Uint8Array :: "jsval \<Rightarrow> bool" where
  "instanceof_Uint8Array (JBytes bs) = True"
| "instanceof_Uint8Array v = False"

text \<open>\<^verbatim>\<open>String(n)\<close> for an array index: its decimal digits.\<close>

fun nat_to_string :: "nat \<Rightarrow> string" where
  "nat_to_string n =
     (if n < 10 then [''0123456789'' ! n]
      else nat_to_string (n div 10) @ [''0123456789'' ! (n mod 10)])"

declare nat_to_string.simps [simp del]

definition index_keys :: "nat \<Rightarrow> string list" where
  "index_keys n = map nat_to_string [0..<n]"

text \<open>
  The own enumerable string-keyed properties of a value, in enumeration order, as
  \<^verbatim>\<open>Object.entries\<close>, \<^verbatim>\<open>Object.values\<close> and \<^verbatim>\<open>for ... in\<close> see them: the
  properties of an object, the indices of an array, of a byte array and of a string.
  A built-in prototype has no enumerable property.
  On \<^verbatim>\<open>undefined\<close> and \<^verbatim>\<open>null\<close> the three raise a TypeError; the program
  applies them behind a test that the value is a non-null object.
\<close>

fun own_entries :: "jsval \<Rightarrow> (string \<times> jsval) list" where
  "own_entries (JObj kvs) = kvs"
| "own_entries (JArr xs) = zip (index_keys (length xs)) xs"
| "own_entries (JBytes bs) = zip (index_keys (length bs)) (map (\<lambda>b. JNum (uint b)) bs)"
| "own_entries (JStr s) = zip (index_keys (length s)) (map (\<lambda>c. JStr [c]) s)"
| "own_entries v = []"

definition own_values :: "jsval \<Rightarrow> jsval list" where
  "own_values v = map snd (own_entries v)"

definition own_keys :: "jsval \<Rightarrow> string list" where
  "own_keys v = map fst (own_entries v)"

text \<open>
  The prototype of a value, as the inherited accessor \<^verbatim>\<open>__proto__\<close> returns it:
  \<^verbatim>\<open>Object.prototype\<close> for a plain object, \<^verbatim>\<open>Array.prototype\<close> for an array, and
  so on; the prototype of \<^verbatim>\<open>Object.prototype\<close> is \<^verbatim>\<open>null\<close>.
\<close>

fun prototype_of :: "jsval \<Rightarrow> jsval" where
  "prototype_of (JObj kvs) = JProto ObjectPrototype"
| "prototype_of (JArr xs) = JProto ArrayPrototype"
| "prototype_of (JBytes bs) = JProto Uint8ArrayPrototype"
| "prototype_of (JStr s) = JProto StringPrototype"
| "prototype_of (JNum n) = JProto NumberPrototype"
| "prototype_of (JBool b) = JProto BooleanPrototype"
| "prototype_of (JProto ObjectPrototype) = JNull"
| "prototype_of (JProto Uint8ArrayPrototype) = JProto TypedArrayPrototype"
| "prototype_of (JProto p) = JProto ObjectPrototype"
| "prototype_of v = JUndefined"

text \<open>
  The names that \<^verbatim>\<open>Object.prototype\<close> defines besides \<^verbatim>\<open>__proto__\<close>; every
  object inherits them. All of them hold functions.
\<close>

definition Object_prototype_members :: "string list" where
  "Object_prototype_members =
     [''constructor'', ''hasOwnProperty'', ''isPrototypeOf'', ''propertyIsEnumerable'',
      ''toLocaleString'', ''toString'', ''valueOf'', ''__defineGetter__'',
      ''__defineSetter__'', ''__lookupGetter__'', ''__lookupSetter__'']"

text \<open>
  Reading a property, \<^verbatim>\<open>v[key]\<close>. \<open>own_property\<close> is the data a read can return: an
  own property; the \<^verbatim>\<open>length\<close> of an array, byte array or string; for the key
  \<^verbatim>\<open>__proto__\<close>, when it is not an own property, the prototype of the value, which
  the accessor inherited from \<^verbatim>\<open>Object.prototype\<close> returns; and \<^verbatim>\<open>undefined\<close>
  otherwise.
\<close>

definition own_property :: "jsval \<Rightarrow> string \<Rightarrow> jsval" where
  "own_property v key =
     (case map_of (own_entries v) key of
        Some x \<Rightarrow> x
      | None \<Rightarrow>
         (if key = ''length'' then
            (case v of
               JArr xs \<Rightarrow> JNum (int (length xs))
             | JBytes bs \<Rightarrow> JNum (int (length bs))
             | JStr s \<Rightarrow> JNum (int (length s))
             | _ \<Rightarrow> JUndefined)
          else if key = ''__proto__'' then prototype_of v
          else JUndefined))"

text \<open>
  A read that reaches a member of a built-in prototype other than \<^verbatim>\<open>__proto__\<close>
  returns a function or depends on the version of the runtime: for a plain object these
  are the names of \<^verbatim>\<open>Object.prototype\<close>; for an array, a byte array, a string, a
  number or a boolean, whose prototypes define many more names, every key that is
  neither an own property nor \<^verbatim>\<open>length\<close>; for a built-in prototype, every key.
\<close>

definition builtin_member :: "jsval \<Rightarrow> string \<Rightarrow> bool" where
  "builtin_member v key =
     (key \<notin> set (own_keys v) \<and> key \<noteq> ''__proto__'' \<and>
      (case v of
         JObj kvs \<Rightarrow> key \<in> set Object_prototype_members
       | JProto p \<Rightarrow> True
       | _ \<Rightarrow> key \<noteq> ''length''))"

text \<open>
  \<open>getprop\<close> is the read \<^verbatim>\<open>v[key]\<close> with its failures: on \<^verbatim>\<open>undefined\<close> and
  \<^verbatim>\<open>null\<close> it raises a TypeError, and a read of a built-in member is not modelled.
\<close>

definition getprop :: "jsval \<Rightarrow> string \<Rightarrow> error + jsval" where
  "getprop v key =
     (if v = JUndefined \<or> v = JNull
      then Inl (TypeError ''Cannot read properties of undefined or null'')
      else if builtin_member v key
      then Inl (Unmodelled ''read of a built-in member'')
      else Inr (own_property v key))"

text \<open>
  The operator \<^verbatim>\<open>key in v\<close> on an object: own properties, \<^verbatim>\<open>length\<close>, and what
  every object inherits from \<^verbatim>\<open>Object.prototype\<close>. The names that the prototypes of
  arrays and byte arrays add are left out; the program tests the keys
  \<^verbatim>\<open>contentType\<close> and \<^verbatim>\<open>contents\<close> only, which no prototype defines. On a primitive
  the operator raises a TypeError; the program applies it only behind a
  \<^verbatim>\<open>typeof node === "object"\<close> test.
\<close>

definition hasprop :: "string \<Rightarrow> jsval \<Rightarrow> bool" where
  "hasprop key v =
     (key \<in> set (own_keys v) \<or>
      (key = ''length'' \<and> (case v of JArr xs \<Rightarrow> True | JBytes bs \<Rightarrow> True | _ \<Rightarrow> False)) \<or>
      key = ''__proto__'' \<or>
      key \<in> set Object_prototype_members)"

text \<open>
  Assigning a property, \<^verbatim>\<open>v[key] = x\<close>, in strict mode (the program is an ES
  module). The object is updated in place; the model returns the updated object.

  The key \<^verbatim>\<open>__proto__\<close>, when it is not an own property, reaches the accessor
  inherited from \<^verbatim>\<open>Object.prototype\<close>: its setter creates no own property; it ignores
  a value that is neither an object nor \<^verbatim>\<open>null\<close>, and it does nothing on a primitive.
  With an object or \<^verbatim>\<open>null\<close> it replaces the prototype of the object, which leaves
  the model.

  For every other key: on an object an existing key keeps its position and a new key
  goes last; on an array an index inside the array replaces the element and the index
  equal to its length appends. On \<^verbatim>\<open>undefined\<close> and \<^verbatim>\<open>null\<close> the assignment
  raises a TypeError, and so it does on a primitive. The other assignments are not
  modelled: a key of an array that is neither \<^verbatim>\<open>__proto__\<close> nor an index up to its
  length, a key of a byte array or of a built-in prototype.
\<close>

definition setprop :: "jsval \<Rightarrow> string \<Rightarrow> jsval \<Rightarrow> error + jsval" where
  "setprop v key x =
     (case v of
        JUndefined \<Rightarrow> Inl (TypeError ''Cannot set properties of undefined'')
      | JNull \<Rightarrow> Inl (TypeError ''Cannot set properties of null'')
      | JBytes bs \<Rightarrow> Inl (Unmodelled ''assignment on a byte array'')
      | JProto p \<Rightarrow> Inl (Unmodelled ''assignment on a built-in prototype'')
      | _ \<Rightarrow>
         (if key = ''__proto__'' \<and> key \<notin> set (own_keys v) then
            (case v of
               JObj kvs \<Rightarrow>
                 if typeof x = ''object''
                 then Inl (Unmodelled ''replacement of the prototype'') else Inr v
             | JArr xs \<Rightarrow>
                 if typeof x = ''object''
                 then Inl (Unmodelled ''replacement of the prototype'') else Inr v
             | _ \<Rightarrow> Inr v)
          else
            (case v of
               JObj kvs \<Rightarrow> Inr (JObj (AList.update key x kvs))
             | JArr xs \<Rightarrow>
                (case find (\<lambda>i. nat_to_string i = key) [0..<Suc (length xs)] of
                   Some i \<Rightarrow> Inr (JArr (if i < length xs then xs[i := x] else xs @ [x]))
                 | None \<Rightarrow> Inl (Unmodelled ''assignment on an array''))
             | _ \<Rightarrow> Inl (TypeError ''Cannot create property on a primitive''))))"

section \<open>Path access (shared.ts, lines 65-79)\<close>

text \<open>\<^verbatim>\<open>getAtPath\<close>: the loop \<^verbatim>\<open>for (const key of path) value = value[key]\<close>.\<close>

fun getAtPath :: "jsval \<Rightarrow> string list \<Rightarrow> error + jsval" where
  "getAtPath doc [] = Inr doc"
| "getAtPath doc (key # path) =
     (case getprop doc key of
        Inl e \<Rightarrow> Inl e
      | Inr v \<Rightarrow> getAtPath v path)"

text \<open>
  \<^verbatim>\<open>setAtPath\<close> walks \<^verbatim>\<open>path.slice(0, -1)\<close> and then assigns under the last key,
  mutating the object it reached. In the tree model the walk returns the root with the
  object it reached replaced by the updated one (\<open>put_child\<close> writes a child that was
  read under \<open>key\<close> back under that key). For the empty path
  \<^verbatim>\<open>path[path.length - 1]\<close> is \<^verbatim>\<open>undefined\<close>, which as a property key is the
  string \<^verbatim>\<open>"undefined"\<close>.
\<close>

definition put_child :: "jsval \<Rightarrow> string \<Rightarrow> jsval \<Rightarrow> jsval" where
  "put_child v key child =
     (case v of
        JObj kvs \<Rightarrow> JObj (AList.update key child kvs)
      | JArr xs \<Rightarrow>
         (case find (\<lambda>i. nat_to_string i = key) [0..<length xs] of
            Some i \<Rightarrow> JArr (xs[i := child])
          | None \<Rightarrow> v)
      | _ \<Rightarrow> v)"

fun assign_at :: "jsval \<Rightarrow> string list \<Rightarrow> string \<Rightarrow> jsval \<Rightarrow> error + jsval" where
  "assign_at doclet [] lastkey x = setprop doclet lastkey x"
| "assign_at doclet (key # keys) lastkey x =
     (case getprop doclet key of
        Inl e \<Rightarrow> Inl e
      | Inr child \<Rightarrow>
         (case assign_at child keys lastkey x of
            Inl e \<Rightarrow> Inl e
          | Inr child' \<Rightarrow> Inr (put_child doclet key child')))"

definition last_key :: "string list \<Rightarrow> string" where
  "last_key path = (if path = [] then ''undefined'' else last path)"

definition setAtPath :: "jsval \<Rightarrow> string list \<Rightarrow> jsval \<Rightarrow> error + jsval" where
  "setAtPath doc path x = assign_at doc (butlast path) (last_key path) x"

section \<open>The file-tree encoding (shared.ts, lines 174-206)\<close>

text \<open>
  \<^verbatim>\<open>isAMFSFile\<close>. The conjunction is evaluated left to right, so the property reads
  happen on a non-null object only.
\<close>

definition isAMFSFile :: "jsval \<Rightarrow> bool" where
  "isAMFSFile node =
     (truthy node \<and>
      typeof node = ''object'' \<and>
      hasprop ''contentType'' node \<and>
      hasprop ''contents'' node \<and>
      typeof (own_property node ''contentType'') = ''string'' \<and>
      (typeof (own_property node ''contents'') = ''string'' \<or>
       instanceof_Uint8Array (own_property node ''contents'')))"

text \<open>
  A measure for the recursion over the properties of a value: every property value of
  an object, array or byte array weighs less than the value itself.
\<close>

fun weight :: "jsval \<Rightarrow> nat" where
  "weight (JArr xs) = Suc (sum_list (map weight xs))"
| "weight (JObj kvs) = Suc (sum_list (map (\<lambda>kv. weight (snd kv)) kvs))"
| "weight (JBytes bs) = Suc 0"
| "weight v = 0"

lemma weight_member: "x \<in> set xs \<Longrightarrow> weight x \<le> sum_list (map weight xs)"
  by (induction xs) auto

lemma weight_own_values:
  assumes "typeof node = ''object''" and "x \<in> set (own_values node)"
  shows "weight x < weight node"
proof (cases node)
  case (JArr xs)
  with assms have "x \<in> set xs"
    by (auto simp: own_values_def index_keys_def dest: set_zip_rightD)
  then show ?thesis using JArr weight_member [of x xs] by simp
next
  case (JObj kvs)
  with assms obtain k where "(k, x) \<in> set kvs"
    by (auto simp: own_values_def)
  then have "weight x \<le> sum_list (map (\<lambda>kv. weight (snd kv)) kvs)"
    by (induction kvs) auto
  then show ?thesis using JObj by simp
next
  case (JBytes bs)
  with assms obtain n where "x = JNum n"
    by (auto simp: own_values_def dest!: set_zip_rightD)
  then show ?thesis using JBytes by simp
qed (use assms in \<open>auto simp: own_values_def\<close>)

text \<open>
  \<^verbatim>\<open>isAMFS\<close> and \<^verbatim>\<open>isAMFSDirectory\<close>, mutually recursive.
  \<^verbatim>\<open>Object.values(node).every(isAMFS)\<close> is reached only when
  \<^verbatim>\<open>!!node && typeof node === "object"\<close> holds, which the \<open>if\<close> expresses.
\<close>

function isAMFS :: "jsval \<Rightarrow> bool" and isAMFSDirectory :: "jsval \<Rightarrow> bool" where
  "isAMFS node = (isAMFSFile node \<or> isAMFSDirectory node)"
| "isAMFSDirectory node =
     (if truthy node \<and> typeof node = ''object''
      then list_all isAMFS (own_values node)
      else False)"
  by pat_completeness auto
termination
  by (relation "measure (\<lambda>a. case a of Inl v \<Rightarrow> 2 * weight v + 1 | Inr v \<Rightarrow> 2 * weight v)")
     (auto dest: weight_own_values)

declare isAMFS.simps [simp del] isAMFSDirectory.simps [simp del]

text \<open>
  Effects on the file system are recorded as a log of the calls made, in order.
  What is written is text or bytes.
\<close>

datatype payload = Text string | Binary "8 word list"

datatype fsop = WriteFile string payload | EnsureDir string

text \<open>
  \<^verbatim>\<open>writeAMFS\<close>. Its parameter has the type \<^verbatim>\<open>AMFSDirectory | AMFSFile\<close> and its only
  outside caller checks \<^verbatim>\<open>isAMFS\<close> first; inside a directory every entry is of that
  type again. The model follows the declared type: the last branch is for values
  outside it, which the program never passes.
\<close>

definition file_contents :: "jsval \<Rightarrow> payload" where
  "file_contents node =
     (case own_property node ''contents'' of
        JBytes bs \<Rightarrow> Binary bs
      | JStr s \<Rightarrow> Text s
      | _ \<Rightarrow> Text [])"

function writeAMFS :: "jsval \<Rightarrow> string \<Rightarrow> fsop list" where
  "writeAMFS directoryOrFile path =
     (if isAMFSFile directoryOrFile then [WriteFile path (file_contents directoryOrFile)]
      else if truthy directoryOrFile \<and> typeof directoryOrFile = ''object'' then
        EnsureDir path #
        concat (map (\<lambda>entry. writeAMFS (snd entry) (path @ ''/'' @ fst entry))
                    (own_entries directoryOrFile))
      else [])"
  by pat_completeness auto
termination
proof (relation "measure (\<lambda>(v, p). weight v)", goal_cases)
  case 1
  show ?case by simp
next
  case (2 directoryOrFile path entry)
  then have "snd entry \<in> set (own_values directoryOrFile)"
    by (auto simp: own_values_def)
  with 2 show ?case
    using weight_own_values [of directoryOrFile "snd entry"] by simp
qed

declare writeAMFS.simps [simp del]

section \<open>JSON text (the call of \<^verbatim>\<open>JSON.stringify\<close> in shared.ts, lines 101-107 and 138-140)\<close>

text \<open>
  \<^verbatim>\<open>JSON.stringify(value, replacer, space)\<close> as ECMAScript defines it, for the values
  of the model. \<open>QuoteJSONString\<close> escapes the quote, the backslash and the control
  characters; \<open>SerializeJSONProperty\<close> calls the replacer on every value before it
  serializes it, leaves out the members of an object that serialize to \<^verbatim>\<open>undefined\<close>
  and writes \<^verbatim>\<open>null\<close> for such elements of an array.
\<close>

definition newline :: char where
  "newline = CHR 0x0A"

definition backslash :: char where
  "backslash = CHR 0x5C"

definition dquote :: char where
  "dquote = CHR 0x22"

definition hex_digit :: "nat \<Rightarrow> char" where
  "hex_digit n = ''0123456789abcdef'' ! n"

definition escape_char :: "char \<Rightarrow> string" where
  "escape_char c =
     (if c = CHR 0x08 then [backslash, CHR ''b'']
      else if c = CHR 0x09 then [backslash, CHR ''t'']
      else if c = CHR 0x0A then [backslash, CHR ''n'']
      else if c = CHR 0x0C then [backslash, CHR ''f'']
      else if c = CHR 0x0D then [backslash, CHR ''r'']
      else if c = dquote then [backslash, dquote]
      else if c = backslash then [backslash, backslash]
      else if (of_char c :: nat) < 32 then
        [backslash, CHR ''u'', CHR ''0'', CHR ''0'',
         hex_digit (of_char c div 16), hex_digit (of_char c mod 16)]
      else [c])"

definition QuoteJSONString :: "string \<Rightarrow> string" where
  "QuoteJSONString s = dquote # concat (map escape_char s) @ [dquote]"

definition int_to_string :: "int \<Rightarrow> string" where
  "int_to_string i =
     (if i < 0 then CHR ''-'' # nat_to_string (nat (- i)) else nat_to_string (nat i))"

text \<open>\<^verbatim>\<open>Buffer.from(value).toString("base64")\<close>.\<close>

definition b64 :: "nat \<Rightarrow> char" where
  "b64 n = ''ABCDEFGHIJKLMNOPQRSTUVWXYZabcdefghijklmnopqrstuvwxyz0123456789+/'' ! n"

fun base64 :: "8 word list \<Rightarrow> string" where
  "base64 [] = []"
| "base64 [a] =
     (let x = unat a
      in [b64 (x div 4), b64 ((x mod 4) * 16), CHR ''='', CHR ''=''])"
| "base64 [a, b] =
     (let x = unat a; y = unat b
      in [b64 (x div 4), b64 ((x mod 4) * 16 + y div 16), b64 ((y mod 16) * 4), CHR ''=''])"
| "base64 (a # b # c # rest) =
     (let x = unat a; y = unat b; z = unat c
      in [b64 (x div 4), b64 ((x mod 4) * 16 + y div 16),
          b64 ((y mod 16) * 4 + z div 64), b64 (z mod 64)] @ base64 rest)"

text \<open>The \<^verbatim>\<open>replacer\<close> of the source: a byte array becomes its base64 string.\<close>

fun replacer :: "string \<Rightarrow> jsval \<Rightarrow> jsval" where
  "replacer key (JBytes bs) = JStr (base64 bs)"
| "replacer key v = v"

text \<open>
  The text of an array or object from the texts of its members: on one line when the
  gap is empty, and one member per line, indented, otherwise.
\<close>

definition assemble :: "string \<Rightarrow> string \<Rightarrow> string \<Rightarrow> string \<Rightarrow> string \<Rightarrow> string list \<Rightarrow> string" where
  "assemble opening closing gap indent stepback partial =
     (if partial = [] then opening @ closing
      else if gap = [] then opening @ Array_join partial '','' @ closing
      else opening @ [newline] @ indent @
           Array_join partial ('','' @ [newline] @ indent) @
           [newline] @ stepback @ closing)"

text \<open>
  The text of a built-in prototype: \<^verbatim>\<open>Array.prototype\<close> is an empty array, the
  prototypes of strings, numbers and booleans are wrapper objects of the empty string,
  of zero and of \<^verbatim>\<open>false\<close>, and the others are objects with no enumerable property.
\<close>

fun prototype_text :: "prototype \<Rightarrow> string" where
  "prototype_text ArrayPrototype = ''[]''"
| "prototype_text StringPrototype = [dquote, dquote]"
| "prototype_text NumberPrototype = ''0''"
| "prototype_text BooleanPrototype = ''false''"
| "prototype_text p = ''{}''"

lemma replacer_object:
  "replacer key v = JArr xs \<Longrightarrow> v = JArr xs"
  "replacer key v = JObj kvs \<Longrightarrow> v = JObj kvs"
  by (cases v; simp)+

lemma replacer_not_bytes: "replacer key v \<noteq> JBytes bs"
  by (cases v) simp_all

function SerializeJSONProperty :: "string \<Rightarrow> string \<Rightarrow> string \<Rightarrow> jsval \<Rightarrow> string option" where
  "SerializeJSONProperty gap indent key holder_value =
     (case replacer key holder_value of
        JUndefined \<Rightarrow> None
      | JNull \<Rightarrow> Some ''null''
      | JBool b \<Rightarrow> Some (if b then ''true'' else ''false'')
      | JNum n \<Rightarrow> Some (int_to_string n)
      | JStr s \<Rightarrow> Some (QuoteJSONString s)
      | JProto p \<Rightarrow> Some (prototype_text p)
      | JArr xs \<Rightarrow>
          Some (assemble ''['' '']'' gap (indent @ gap) indent
            (map (\<lambda>entry.
                    case SerializeJSONProperty gap (indent @ gap) (fst entry) (snd entry) of
                      None \<Rightarrow> ''null''
                    | Some text \<Rightarrow> text)
                 (own_entries (JArr xs))))
      | obj \<Rightarrow>
          Some (assemble ''{'' ''}'' gap (indent @ gap) indent
            (concat (map (\<lambda>entry.
                    case SerializeJSONProperty gap (indent @ gap) (fst entry) (snd entry) of
                      None \<Rightarrow> []
                    | Some text \<Rightarrow>
                        [QuoteJSONString (fst entry) @ '':'' @
                         (if gap = [] then [] else '' '') @ text])
                 (own_entries obj)))))"
  by pat_completeness auto
termination
proof (relation "measure (\<lambda>(gap, indent, key, v). weight v)", goal_cases)
  case 1
  show ?case by simp
next
  case (2 gap indent key holder_value bs entry)
  then show ?case by (simp add: replacer_not_bytes)
next
  case (3 gap indent key holder_value xs entry)
  then have "holder_value = JArr xs" and "snd entry \<in> set (own_values (JArr xs))"
    by (auto simp: own_values_def dest: replacer_object)
  then show ?case
    using weight_own_values [of "JArr xs" "snd entry"] by (simp add: case_prod_beta)
next
  case (4 gap indent key holder_value kvs entry)
  then have "holder_value = JObj kvs" and "snd entry \<in> set (own_values (JObj kvs))"
    by (auto simp: own_values_def dest: replacer_object)
  then show ?case
    using weight_own_values [of "JObj kvs" "snd entry"] by (simp add: case_prod_beta)
qed

declare SerializeJSONProperty.simps [simp del]

text \<open>
  \<^verbatim>\<open>JSON.stringify\<close> with the source's replacer. \<open>space\<close> is \<open>None\<close> for
  \<^verbatim>\<open>undefined\<close> and \<open>Some n\<close> for the number \<open>n\<close>: the gap is \<open>n\<close> spaces, at
  most ten. The result is \<open>None\<close> when the call returns \<^verbatim>\<open>undefined\<close>.
\<close>

definition JSON_stringify :: "jsval \<Rightarrow> nat option \<Rightarrow> string option" where
  "JSON_stringify v space =
     SerializeJSONProperty
       (case space of None \<Rightarrow> [] | Some n \<Rightarrow> replicate (min n 10) (CHR '' '')) [] [] v"

text \<open>\<^verbatim>\<open>x + "\n"\<close> where \<^verbatim>\<open>x\<close> is a string or \<^verbatim>\<open>undefined\<close>.\<close>

definition plus_string :: "string option \<Rightarrow> string \<Rightarrow> string" where
  "plus_string x s = (case x of None \<Rightarrow> ''undefined'' @ s | Some t \<Rightarrow> t @ s)"

section \<open>Writing to a location (shared.ts, lines 109-172)\<close>

text \<open>
  What the program acts on: the documents of the repository by their URL, what has
  been written to standard output and to the error stream, and the log of file-system
  calls.
\<close>

record world =
  documents :: "string \<Rightarrow> jsval option"
  stdout :: "payload list"
  stderr :: "string list"
  filesystem :: "fsop list"

text \<open>
  Inside \<^verbatim>\<open>handle.change\<close> the document and the objects reached from it are the
  mutable proxies of the document store, which is not part of this repository. A proxy
  handles every key itself and inherits nothing: a read gives the value stored under
  the key (or the length of a list), and \<^verbatim>\<open>undefined\<close> for a key that is not there;
  an assignment stores the value under the key, whatever the key is. The document is a
  tree of the same shape as a value; \<open>document_get\<close> and \<open>document_set\<close> are the read
  and the assignment on it, and \<open>document_assign_at\<close> is the walk of lines 164-168.
\<close>

definition stored_property :: "jsval \<Rightarrow> string \<Rightarrow> jsval" where
  "stored_property v key =
     (case map_of (own_entries v) key of
        Some x \<Rightarrow> x
      | None \<Rightarrow>
         (if key = ''length'' then
            (case v of
               JArr xs \<Rightarrow> JNum (int (length xs))
             | JBytes bs \<Rightarrow> JNum (int (length bs))
             | JStr s \<Rightarrow> JNum (int (length s))
             | _ \<Rightarrow> JUndefined)
          else JUndefined))"

definition document_get :: "jsval \<Rightarrow> string \<Rightarrow> error + jsval" where
  "document_get v key =
     (if v = JUndefined \<or> v = JNull
      then Inl (TypeError ''Cannot read properties of undefined or null'')
      else Inr (stored_property v key))"

definition document_set :: "jsval \<Rightarrow> string \<Rightarrow> jsval \<Rightarrow> error + jsval" where
  "document_set v key x =
     (case v of
        JObj kvs \<Rightarrow> Inr (JObj (AList.update key x kvs))
      | JArr xs \<Rightarrow>
         (case find (\<lambda>i. nat_to_string i = key) [0..<Suc (length xs)] of
            Some i \<Rightarrow> Inr (JArr (if i < length xs then xs[i := x] else xs @ [x]))
          | None \<Rightarrow> Inl (Unmodelled ''assignment on a list of the document''))
      | JBytes bs \<Rightarrow> Inl (Unmodelled ''assignment on a byte array'')
      | JProto p \<Rightarrow> Inl (Unmodelled ''assignment on a built-in prototype'')
      | JUndefined \<Rightarrow> Inl (TypeError ''Cannot set properties of undefined'')
      | JNull \<Rightarrow> Inl (TypeError ''Cannot set properties of null'')
      | _ \<Rightarrow> Inl (TypeError ''Cannot create property on a primitive''))"

fun document_assign_at :: "jsval \<Rightarrow> string list \<Rightarrow> string \<Rightarrow> jsval \<Rightarrow> error + jsval" where
  "document_assign_at doclet [] lastkey x = document_set doclet lastkey x"
| "document_assign_at doclet (key # keys) lastkey x =
     (case document_get doclet key of
        Inl e \<Rightarrow> Inl e
      | Inr child \<Rightarrow>
         (case document_assign_at child keys lastkey x of
            Inl e \<Rightarrow> Inl e
          | Inr child' \<Rightarrow> Inr (put_child doclet key child')))"

text \<open>
  The callback passed to \<^verbatim>\<open>handle.change\<close> (lines 152-170), as a function of the
  mutable document: it returns the error it raised, if any, and the document as it has
  left it. \<open>assign_keys\<close> is the loop \<^verbatim>\<open>for (const key in val) doc[key] = val[key]\<close>:
  the value is read as a plain value, the document is assigned as a proxy.
\<close>

fun assign_keys :: "jsval \<Rightarrow> string list \<Rightarrow> jsval \<Rightarrow> error option \<times> jsval" where
  "assign_keys val [] doc = (None, doc)"
| "assign_keys val (key # keys) doc =
     (case getprop val key of
        Inl e \<Rightarrow> (Some e, doc)
      | Inr x \<Rightarrow>
         (case document_set doc key x of
            Inl e \<Rightarrow> (Some e, doc)
          | Inr doc' \<Rightarrow> assign_keys val keys doc'))"

definition change_callback :: "string list \<Rightarrow> jsval \<Rightarrow> jsval \<Rightarrow> error option \<times> jsval" where
  "change_callback dst_path val doc =
     (if length dst_path = 0 then
        (if \<not> (typeof val = ''object'' \<and> val \<noteq> JNull)
         then (Some (AMTError ''only an object can be written to a document root''), doc)
         else assign_keys val (own_keys val) doc)
      else
        (case document_assign_at doc (butlast dst_path) (last dst_path) val of
           Inl e \<Rightarrow> (Some e, doc)
         | Inr doc' \<Rightarrow> (None, doc')))"

text \<open>
  \<^verbatim>\<open>handle.change(callback)\<close> of the document store, which is not part of this
  repository: the callback runs on the document found under the URL, and its changes
  are committed when it returns; when it raises, they are discarded and the error
  propagates. A document that is not there makes the call fail.
\<close>

definition handle_change ::
  "string \<Rightarrow> (jsval \<Rightarrow> error option \<times> jsval) \<Rightarrow> world \<Rightarrow> error option \<times> world" where
  "handle_change url callback w =
     (case documents w url of
        None \<Rightarrow> (Some (Error ''document unavailable''), w)
      | Some doc \<Rightarrow>
         (case callback doc of
            (Some e, doc') \<Rightarrow> (Some e, w)
          | (None, doc') \<Rightarrow> (None, w\<lparr>documents := (documents w)(url \<mapsto> doc')\<rparr>)))"

text \<open>
  \<^verbatim>\<open>writeToLocation\<close>. The result is the error raised, if any, and the world after
  the call. \<open>emit\<close> is the last \<^verbatim>\<open>if\<close> of the file-or-pipe branch (lines 143-147).
\<close>

definition emit :: "location \<Rightarrow> payload \<Rightarrow> world \<Rightarrow> world" where
  "emit dst stringVal w =
     (case dst of
        LocationPipe \<Rightarrow> w\<lparr>stdout := stdout w @ [stringVal]\<rparr>
      | LocationFile path \<Rightarrow> w\<lparr>filesystem := filesystem w @ [WriteFile path stringVal]\<rparr>
      | LocationAutomerge url path \<Rightarrow> w)"

definition writeToLocation :: "location \<Rightarrow> jsval \<Rightarrow> valuetype \<Rightarrow> world \<Rightarrow> error option \<times> world" where
  "writeToLocation dst val type w =
     (if type = Fs then
        (case dst of
           LocationFile path \<Rightarrow>
             (if \<not> isAMFS val
              then (Some (AMTError ''value must be an automerge file object to copy in fs mode''), w)
              else (None, w\<lparr>filesystem := filesystem w @ writeAMFS val path\<rparr>))
         | _ \<Rightarrow>
             (Some (AMTError (''value type '' @ [dquote] @ ''fs'' @ [dquote] @
                              '' can be only written to file system'')), w))
      else
        (case dst of
           LocationAutomerge url path \<Rightarrow> handle_change url (change_callback path val) w
         | _ \<Rightarrow>
            (if type = Raw then
               (case val of
                  JStr s \<Rightarrow> (None, emit dst (Text s) w)
                | JBytes bs \<Rightarrow> (None, emit dst (Binary bs) w)
                | _ \<Rightarrow> (Some (AMTError ''value must be a string or bytes to copy in raw mode''), w))
             else
               (None,
                emit dst
                  (Text (plus_string
                     (JSON_stringify val (if dst = LocationPipe then None else Some 2))
                     [newline]))
                  w))))"

section \<open>Errors and the copy from a document (shared.ts, lines 213-228; cp, lines 81-122)\<close>

text \<open>
  How a call ends: it returns, it ends the process with an exit status, or it raises
  (for an \<^verbatim>\<open>async\<close> function: its promise is rejected).
\<close>

datatype outcome = Returned | Exited nat | Thrown error

text \<open>\<^verbatim>\<open>catchAMTErrors(f, fatal)\<close>.\<close>

definition catchAMTErrors ::
  "(world \<Rightarrow> error option \<times> world) \<Rightarrow> bool \<Rightarrow> world \<Rightarrow> outcome \<times> world" where
  "catchAMTErrors f fatal w =
     (case f w of
        (None, w') \<Rightarrow> (Returned, w')
      | (Some (AMTError message), w') \<Rightarrow>
          (if fatal
           then (Exited 1, w'\<lparr>stderr := stderr w' @ [''error: '' @ message]\<rparr>)
           else (Returned, w'\<lparr>stderr := stderr w' @ [''error: '' @ message]\<rparr>))
      | (Some e, w') \<Rightarrow> (Thrown e, w'))"

text \<open>
  \<^verbatim>\<open>onDoc\<close>, the inner function of \<^verbatim>\<open>cpFromAutomerge\<close>: read the value at the source
  path of the snapshot, write it to the destination, and report on the error stream
  unless the destination is the pipe.
\<close>

definition onDoc ::
  "string \<Rightarrow> string list \<Rightarrow> location \<Rightarrow> valuetype \<Rightarrow> jsval \<Rightarrow> world \<Rightarrow> error option \<times> world" where
  "onDoc src_url src_path dst type doc w =
     (case getAtPath doc src_path of
        Inl e \<Rightarrow> (Some e, w)
      | Inr v \<Rightarrow>
         (case writeToLocation dst v type w of
            (Some e, w') \<Rightarrow> (Some e, w')
          | (None, w') \<Rightarrow>
              (None,
               if dst \<noteq> LocationPipe
               then w'\<lparr>stderr := stderr w' @
                      [''wrote '' @ stringifyLocation (LocationAutomerge src_url src_path) @
                       '' to '' @ stringifyLocation dst]\<rparr>
               else w')))"

text \<open>
  The delivery of change events by the host, which is not part of this repository:
  the listener runs on each event in the order of arrival, one event at a time. The
  listener of the source does not await the promise of \<^verbatim>\<open>catchAMTErrors\<close>, so an
  error that \<^verbatim>\<open>catchAMTErrors\<close> raises again is a rejection that nothing handles,
  which ends the process; the events after it are not delivered.
\<close>

fun deliver :: "(jsval \<Rightarrow> world \<Rightarrow> outcome \<times> world) \<Rightarrow> jsval list \<Rightarrow> world \<Rightarrow> outcome \<times> world" where
  "deliver listener [] w = (Returned, w)"
| "deliver listener (doc # docs) w =
     (case listener doc w of
        (Returned, w') \<Rightarrow> deliver listener docs w'
      | (ending, w') \<Rightarrow> (ending, w'))"

text \<open>
  \<^verbatim>\<open>cpFromAutomerge(src, dst, watch, type)\<close>, with the source location given by its
  URL and path. \<open>events\<close> are the snapshots of the change events that arrive after the
  listener has been added; the one-shot copy does not look at them. After a one-shot
  copy the process exits with status 0.
\<close>

definition cpFromAutomerge ::
  "string \<Rightarrow> string list \<Rightarrow> location \<Rightarrow> bool \<Rightarrow> valuetype \<Rightarrow> jsval list \<Rightarrow> world \<Rightarrow> outcome \<times> world" where
  "cpFromAutomerge src_url src_path dst watch type events w =
     (if type = Raw \<and> (case dst of LocationAutomerge url path \<Rightarrow> True | _ \<Rightarrow> False)
      then (Thrown (AMTError ''raw copy from automerge to automerge doesn't really make sense''), w)
      else if watch then
        deliver (\<lambda>doc. catchAMTErrors (onDoc src_url src_path dst type doc) False) events w
      else
        (case documents w src_url of
           None \<Rightarrow> (Thrown (AMTError (''document '' @ src_url @ '' not found'')), w)
         | Some doc \<Rightarrow>
            (if \<not> truthy doc
             then (Thrown (AMTError (''document '' @ src_url @ '' not found'')), w)
             else
               (case onDoc src_url src_path dst type doc w of
                  (Some e, w') \<Rightarrow> (Thrown e, w')
                | (None, w') \<Rightarrow> (Exited 0, w')))))"

section \<open>The address grammar in the words of the specification\<close>

text \<open>
  The specification describes a document address by its text: the identifier is the
  text up to, not including, the first \<^verbatim>\<open>/\<close>, and the path is the remainder after that
  \<^verbatim>\<open>/\<close>, split at every \<^verbatim>\<open>/\<close>; an address with no \<^verbatim>\<open>/\<close> has the empty path. These
  two definitions follow that wording; \<open>parseLocation\<close> above follows the source.
\<close>

definition document_id :: "string \<Rightarrow> string" where
  "document_id s = takeWhile (\<lambda>c. c \<noteq> CHR ''/'') s"

definition document_path :: "string \<Rightarrow> string list" where
  "document_path s =
     (case dropWhile (\<lambda>c. c \<noteq> CHR ''/'') s of
        [] \<Rightarrow> []
      | slash # remainder \<Rightarrow> String_split remainder (CHR ''/''))"

section \<open>Notions of the specification used in the statements\<close>

text \<open>
  A path into a pre-existing nested-object skeleton, in the words of the
  specification: the path is not empty, every key but the last is present and maps to
  an object, and the value under the last of these is an object too.
\<close>

fun skeleton :: "jsval \<Rightarrow> string list \<Rightarrow> bool" where
  "skeleton root [] = False"
| "skeleton root [key] = (case root of JObj kvs \<Rightarrow> True | _ \<Rightarrow> False)"
| "skeleton root (key # rest) =
     (case root of
        JObj kvs \<Rightarrow>
          (case map_of kvs key of
             Some child \<Rightarrow> skeleton child rest
           | None \<Rightarrow> False)
      | _ \<Rightarrow> False)"

text \<open>A world with one document and nothing written yet, for the examples.\<close>

definition world0 :: world where
  "world0 = \<lparr>documents = [''automerge:doc'' \<mapsto> JObj [(''keep'', JNum 0), (''x'', JNum 7)]],
             stdout = [], stderr = [], filesystem = []\<rparr>"

section \<open>Properties of the location parser\<close>

lemma String_split_not_Nil: "String_split s sep \<noteq> []"
  by (induction s) (auto split: list.splits)

lemma join_split: "Array_join (String_split s sep) [sep] = s"
proof (induction s)
  case Nil
  show ?case by simp
next
  case (Cons c cs)
  obtain piece pieces where sp: "String_split cs sep = piece # pieces"
    using String_split_not_Nil [of cs sep] by (cases "String_split cs sep") auto
  show ?case
  proof (cases "c = sep")
    case True
    with Cons sp show ?thesis by simp
  next
    case False
    with Cons sp show ?thesis by (cases pieces) auto
  qed
qed

lemma String_split_first:
  "String_split s sep =
     takeWhile (\<lambda>c. c \<noteq> sep) s #
     (case dropWhile (\<lambda>c. c \<noteq> sep) s of
        [] \<Rightarrow> []
      | x # remainder \<Rightarrow> String_split remainder sep)"
proof (induction s)
  case Nil
  show ?case by simp
next
  case (Cons c cs)
  show ?case
  proof (cases "c = sep")
    case True
    then show ?thesis
      using String_split_not_Nil [of cs sep]
      by (cases "String_split cs sep") simp_all
  next
    case False
    then show ?thesis by (simp add: Cons.IH)
  qed
qed

text \<open>
  Claim C7. \<open>parseLocation\<close> is defined on every string and never fails: the string
  \<^verbatim>\<open>-\<close> is the pipe; a string that starts with \<^verbatim>\<open>automerge:\<close> is a document
  location whose identifier is the text before the first \<^verbatim>\<open>/\<close> and whose path is the
  remainder split at \<^verbatim>\<open>/\<close>, so that \<^verbatim>\<open>automerge:abc\<close> has the empty path and
  \<^verbatim>\<open>automerge:abc/x/y\<close> the path \<^verbatim>\<open>["x", "y"]\<close>; every other string is a file location
  with that string as its path.
\<close>

theorem parseLocation_grammar:
  "parseLocation s =
     (if s = ''-'' then LocationPipe
      else if startsWith s ''automerge:''
      then LocationAutomerge (document_id s) (document_path s)
      else LocationFile s)
   \<and> parseLocation ''automerge:abc'' = LocationAutomerge ''automerge:abc'' []
   \<and> parseLocation ''automerge:abc/x/y'' = LocationAutomerge ''automerge:abc'' [''x'', ''y'']"
proof -
  have "String_split s (CHR ''/'') = document_id s # document_path s"
    unfolding document_id_def document_path_def by (rule String_split_first)
  then have general: "parseLocation s =
     (if s = ''-'' then LocationPipe
      else if startsWith s ''automerge:''
      then LocationAutomerge (document_id s) (document_path s)
      else LocationFile s)"
    by (simp add: parseLocation_def)
  have "parseLocation ''automerge:abc'' = LocationAutomerge ''automerge:abc'' []"
    by (simp add: parseLocation_def startsWith_def)
  moreover have "parseLocation ''automerge:abc/x/y'' =
      LocationAutomerge ''automerge:abc'' [''x'', ''y'']"
    by (simp add: parseLocation_def startsWith_def)
  ultimately show ?thesis using general by simp
qed

text \<open>
  Claim C2, as the code has it. For every address other than \<^verbatim>\<open>-\<close>,
  \<open>stringifyLocation\<close> gives back the address that was parsed, so parsing the result
  again gives the same location; this covers every document address and every file
  path (a string that starts with the document prefix is never parsed as a file path).
  For the address \<^verbatim>\<open>-\<close> the result is the text \<^verbatim>\<open>pipe\<close>, which parses to the file
  location \<^verbatim>\<open>pipe\<close>.
\<close>

theorem parse_stringify_roundtrip:
  "stringifyLocation (parseLocation s) = (if s = ''-'' then ''pipe'' else s)
   \<and> parseLocation (stringifyLocation (parseLocation s)) =
       (if s = ''-'' then LocationFile ''pipe'' else parseLocation s)"
proof -
  have same_text: "stringifyLocation (parseLocation s) = (if s = ''-'' then ''pipe'' else s)"
  proof (cases "String_split s (CHR ''/'')")
    case Nil
    then show ?thesis using String_split_not_Nil [of s "CHR ''/''"] by simp
  next
    case (Cons first rest)
    then have "Array_join (first # rest) ''/'' = s"
      using join_split [of s "CHR ''/''"] by simp
    with Cons show ?thesis
      by (simp add: parseLocation_def stringifyLocation_def)
  qed
  have "parseLocation ''pipe'' = LocationFile ''pipe''"
    by (simp add: parseLocation_def startsWith_def)
  with same_text show ?thesis by simp
qed

text \<open>
  The round trip stated for every address fails at the pipe address \<^verbatim>\<open>-\<close>: it parses
  to the pipe, and the text of the pipe parses to a file location.
\<close>

theorem pipe_roundtrip_fails:
  "parseLocation (stringifyLocation (parseLocation ''-'')) \<noteq> parseLocation ''-''"
  by (simp add: parseLocation_def stringifyLocation_def startsWith_def)

section \<open>Properties of the mode checks\<close>

text \<open>
  Claim C5. Whatever the value, writing in \<open>Fs\<close> mode to the pipe or to a document
  raises an \<open>AMTError\<close> and leaves the world as it was: nothing has been written to
  standard output, to the file system or to a document.
\<close>

theorem fs_mode_needs_file_destination:
  "writeToLocation LocationPipe val Fs w =
     (Some (AMTError (''value type '' @ [dquote] @ ''fs'' @ [dquote] @
                      '' can be only written to file system'')), w)
   \<and> writeToLocation (LocationAutomerge url path) val Fs w =
     (Some (AMTError (''value type '' @ [dquote] @ ''fs'' @ [dquote] @
                      '' can be only written to file system'')), w)"
  by (simp add: writeToLocation_def)

text \<open>
  The same at the level of the copy: a one-shot copy in \<open>Fs\<close> mode from a document
  whose value at the source path can be read ends with that error, and nothing has
  been written.
\<close>

lemma fs_copy_from_document_rejected:
  assumes "documents w src_url = Some doc" and "truthy doc"
    and "getAtPath doc src_path = Inr v"
    and "dst = LocationPipe \<or> dst = LocationAutomerge url path"
  shows "cpFromAutomerge src_url src_path dst False Fs events w =
     (Thrown (AMTError (''value type '' @ [dquote] @ ''fs'' @ [dquote] @
                        '' can be only written to file system'')), w)"
  using assms by (auto simp: cpFromAutomerge_def onDoc_def writeToLocation_def)

text \<open>
  Claim C6. A copy from a document to a document in \<open>Raw\<close> mode raises an
  \<open>AMTError\<close>, whatever the two URLs and paths, in watch mode and in one-shot mode,
  before anything is read or written.
\<close>

theorem raw_document_to_document_rejected:
  "cpFromAutomerge src_url src_path (LocationAutomerge dst_url dst_path) watch Raw events w =
     (Thrown (AMTError ''raw copy from automerge to automerge doesn't really make sense''), w)"
  by (simp add: cpFromAutomerge_def)

section \<open>Properties of the path accessors\<close>

lemma own_property_JObj:
  "own_property (JObj kvs) key =
     (case map_of kvs key of
        Some x \<Rightarrow> x
      | None \<Rightarrow> if key = ''__proto__'' then JProto ObjectPrototype else JUndefined)"
  by (simp add: own_property_def split: option.splits)

lemma own_keys_JObj: "set (own_keys (JObj kvs)) = fst ` set kvs"
  by (simp add: own_keys_def)

lemma getprop_own:
  "key \<in> set (own_keys v) \<Longrightarrow> v \<noteq> JUndefined \<Longrightarrow> v \<noteq> JNull \<Longrightarrow>
   getprop v key = Inr (own_property v key)"
  by (simp add: getprop_def builtin_member_def)

lemma getprop_JObj_present:
  "map_of kvs key = Some x \<Longrightarrow> getprop (JObj kvs) key = Inr x"
proof -
  assume present: "map_of kvs key = Some x"
  then have "(key, x) \<in> set kvs" by (rule map_of_SomeD)
  then have "key \<in> set (own_keys (JObj kvs))" by (force simp: own_keys_JObj)
  then show ?thesis
    using present getprop_own [of key "JObj kvs"] by (simp add: own_property_JObj)
qed

lemma setprop_JObj:
  "key \<noteq> ''__proto__'' \<or> key \<in> set (own_keys (JObj kvs)) \<Longrightarrow>
   setprop (JObj kvs) key x = Inr (JObj (AList.update key x kvs))"
  by (auto simp: setprop_def)

lemma get_after_set:
  "skeleton root path \<Longrightarrow>
   last path \<noteq> ''__proto__'' \<or>
     (\<exists>target. getAtPath root (butlast path) = Inr target \<and>
        ''__proto__'' \<in> set (own_keys target)) \<Longrightarrow>
   \<exists>root'. assign_at root (butlast path) (last path) x = Inr root' \<and>
           getAtPath root' path = Inr x"
proof (induction root path rule: skeleton.induct)
  case (1 root)
  then show ?case by simp
next
  case (2 root key)
  then obtain kvs where root: "root = JObj kvs" by (cases root) auto
  with "2.prems"(2) have "key \<noteq> ''__proto__'' \<or> key \<in> set (own_keys (JObj kvs))"
    by auto
  then have "setprop (JObj kvs) key x = Inr (JObj (AList.update key x kvs))"
    by (rule setprop_JObj)
  moreover have "getprop (JObj (AList.update key x kvs)) key = Inr x"
    by (rule getprop_JObj_present) (simp add: update_conv')
  ultimately show ?case using root by simp
next
  case (3 root key k2 rest)
  then obtain kvs child where root: "root = JObj kvs" and child: "map_of kvs key = Some child"
     and sk: "skeleton child (k2 # rest)"
    by (cases root) (auto split: option.splits)
  have read: "getprop (JObj kvs) key = Inr child"
    using child by (rule getprop_JObj_present)
  have "last (k2 # rest) \<noteq> ''__proto__'' \<or>
     (\<exists>target. getAtPath child (butlast (k2 # rest)) = Inr target \<and>
        ''__proto__'' \<in> set (own_keys target))"
    using "3.prems"(2) root read by simp
  from "3.IH" [OF root child sk this] obtain child' where
    c: "assign_at child (butlast (k2 # rest)) (last (k2 # rest)) x = Inr child'"
       "getAtPath child' (k2 # rest) = Inr x" by blast
  have "getprop (JObj (AList.update key child' kvs)) key = Inr child'"
    by (rule getprop_JObj_present) (simp add: update_conv')
  then show ?case using root read c
    by (simp add: put_child_def)
qed

text \<open>
  Claim C8, as the code has it. For a non-empty path into a nested-object skeleton of
  \<open>root\<close> whose last key is not \<^verbatim>\<open>__proto__\<close>, or is an own property of the object
  that the walk reaches, and for every value \<open>x\<close>: \<open>setAtPath\<close> succeeds, and
  \<open>getAtPath\<close> on the updated root, along the same path, returns \<open>x\<close>.
\<close>

theorem getAtPath_setAtPath_own_key:
  assumes "skeleton root path"
    and "last path \<noteq> ''__proto__'' \<or>
         (\<exists>target. getAtPath root (butlast path) = Inr target \<and>
            ''__proto__'' \<in> set (own_keys target))"
  shows "\<exists>root'. setAtPath root path x = Inr root' \<and> getAtPath root' path = Inr x"
  using get_after_set [OF assms, of x] assms(1)
  by (cases path) (auto simp: setAtPath_def last_key_def)

text \<open>
  Stated for every path into a skeleton, the property fails: on the empty object and the path
  \<^verbatim>\<open>["__proto__"]\<close>, assigning the number 5 reaches the inherited setter, which
  ignores a number and creates no property, and the read returns
  \<^verbatim>\<open>Object.prototype\<close>.
\<close>

theorem getAtPath_setAtPath_proto_fails:
  "skeleton (JObj []) [''__proto__'']
   \<and> setAtPath (JObj []) [''__proto__''] (JNum 5) = Inr (JObj [])
   \<and> getAtPath (JObj []) [''__proto__''] = Inr (JProto ObjectPrototype)"
  by (simp add: setAtPath_def last_key_def setprop_def own_keys_def getprop_def
        builtin_member_def own_property_def)

theorem getAtPath_setAtPath_own_key_witness:
  "skeleton (JObj [(''a'', JObj [(''b'', JNum 1)]), (''c'', JNull)]) [''a'', ''b'']
   \<and> setAtPath (JObj [(''a'', JObj [(''b'', JNum 1)]), (''c'', JNull)]) [''a'', ''b''] (JStr ''v'')
       = Inr (JObj [(''a'', JObj [(''b'', JStr ''v'')]), (''c'', JNull)])
   \<and> getAtPath (JObj [(''a'', JObj [(''b'', JStr ''v'')]), (''c'', JNull)]) [''a'', ''b'']
       = Inr (JStr ''v'')
   \<and> skeleton (JObj [(''__proto__'', JNum 1)]) [''__proto__'']
   \<and> setAtPath (JObj [(''__proto__'', JNum 1)]) [''__proto__''] (JNum 5)
       = Inr (JObj [(''__proto__'', JNum 5)])
   \<and> getAtPath (JObj [(''__proto__'', JNum 5)]) [''__proto__''] = Inr (JNum 5)"
  using getAtPath_setAtPath_own_key
    [of "JObj [(''a'', JObj [(''b'', JNum 1)]), (''c'', JNull)]" "[''a'', ''b'']" "JStr ''v''"]
    getAtPath_setAtPath_own_key
    [of "JObj [(''__proto__'', JNum 1)]" "[''__proto__'']" "JNum 5"]
  by (auto simp: setAtPath_def last_key_def getprop_def builtin_member_def own_property_def
        own_keys_def setprop_def put_child_def Object_prototype_members_def)

text \<open>
  In general: on an object with no own property \<^verbatim>\<open>__proto__\<close>, assigning under that
  key a value that is neither an object nor \<^verbatim>\<open>null\<close> leaves the object as it is, and
  the read returns \<^verbatim>\<open>Object.prototype\<close>.
\<close>

lemma proto_assignment_ignored:
  assumes "''__proto__'' \<notin> set (own_keys (JObj kvs))" and "typeof x \<noteq> ''object''"
  shows "setAtPath (JObj kvs) [''__proto__''] x = Inr (JObj kvs)
         \<and> getAtPath (JObj kvs) [''__proto__''] = Inr (JProto ObjectPrototype)"
proof -
  from assms(1) have "map_of kvs ''__proto__'' = None"
    by (simp add: own_keys_JObj map_of_eq_None_iff)
  then show ?thesis
    using assms
    by (simp add: setAtPath_def last_key_def setprop_def getprop_def builtin_member_def
          own_property_JObj)
qed

section \<open>Properties of the write to a document root\<close>

lemma document_set_JObj:
  "document_set (JObj kvs) key x = Inr (JObj (AList.update key x kvs))"
  by (simp add: document_set_def)

lemma assign_keys_JObj:
  assumes "typeof val = ''object''" and "val \<noteq> JNull"
  shows "set keys \<subseteq> set (own_keys val) \<Longrightarrow>
         \<exists>kvs'. assign_keys val keys (JObj kvs) = (None, JObj kvs') \<and>
           (\<forall>key. map_of kvs' key =
              (if key \<in> set keys then Some (own_property val key) else map_of kvs key))"
proof (induction keys arbitrary: kvs)
  case Nil
  show ?case by simp
next
  case (Cons k keys)
  from Cons.prems have own: "k \<in> set (own_keys val)" and rest: "set keys \<subseteq> set (own_keys val)"
    by simp_all
  from assms have "val \<noteq> JUndefined" by auto
  with own assms(2) have read: "getprop val k = Inr (own_property val k)"
    by (simp add: getprop_own)
  obtain kvs' where step:
    "assign_keys val keys (JObj (AList.update k (own_property val k) kvs)) = (None, JObj kvs')"
    "\<forall>key. map_of kvs' key =
       (if key \<in> set keys then Some (own_property val key)
        else map_of (AList.update k (own_property val k) kvs) key)"
    using Cons.IH [OF rest, of "AList.update k (own_property val k) kvs"] by blast
  have "assign_keys val (k # keys) (JObj kvs) = (None, JObj kvs')"
    using read step(1) by (simp add: document_set_JObj)
  moreover have "\<forall>key. map_of kvs' key =
      (if key \<in> set (k # keys) then Some (own_property val key) else map_of kvs key)"
    using step(2) by (simp add: update_conv')
  ultimately show ?case by blast
qed

text \<open>
  Claim C3. Writing in \<open>Json\<close> mode to a document at the empty path, where the document
  exists and its root is an object: a value that is not a non-null object raises the
  \<open>AMTError\<close>, the callback leaves the document as it was and so does the store;
  for a non-null object the write succeeds, and in the new root every key of the value
  has the value's property, while every other key has what the old root had.
\<close>

theorem root_write_merges:
  assumes "documents w url = Some (JObj kvs)"
  shows "if typeof val = ''object'' \<and> val \<noteq> JNull
         then \<exists>doc'. writeToLocation (LocationAutomerge url []) val Json w =
                  (None, w\<lparr>documents := (documents w)(url \<mapsto> doc')\<rparr>)
                \<and> (\<forall>key. own_property doc' key =
                      (if key \<in> set (own_keys val) then own_property val key
                       else own_property (JObj kvs) key))
         else writeToLocation (LocationAutomerge url []) val Json w =
                (Some (AMTError ''only an object can be written to a document root''), w)
              \<and> change_callback [] val (JObj kvs) =
                (Some (AMTError ''only an object can be written to a document root''), JObj kvs)"
proof (cases "typeof val = ''object'' \<and> val \<noteq> JNull")
  case True
  then obtain kvs' where a:
    "assign_keys val (own_keys val) (JObj kvs) = (None, JObj kvs')"
    "\<forall>key. map_of kvs' key =
       (if key \<in> set (own_keys val) then Some (own_property val key) else map_of kvs key)"
    using assign_keys_JObj [of val "own_keys val" kvs] by blast
  have "writeToLocation (LocationAutomerge url []) val Json w =
          (None, w\<lparr>documents := (documents w)(url \<mapsto> JObj kvs')\<rparr>)"
    using True assms a(1)
    by (simp add: writeToLocation_def handle_change_def change_callback_def)
  moreover have "\<forall>key. own_property (JObj kvs') key =
      (if key \<in> set (own_keys val) then own_property val key
       else own_property (JObj kvs) key)"
    using a(2) by (simp add: own_property_JObj)
  ultimately show ?thesis using True by auto
next
  case False
  then show ?thesis
    using assms
    by (auto simp: writeToLocation_def handle_change_def change_callback_def)
qed

theorem root_write_merges_witness:
  "documents world0 ''automerge:doc'' = Some (JObj [(''keep'', JNum 0), (''x'', JNum 7)])
   \<and> writeToLocation (LocationAutomerge ''automerge:doc'' [])
        (JObj [(''x'', JNum 1), (''y'', JNum 2)]) Json world0 =
       (None, world0\<lparr>documents := (documents world0)(''automerge:doc'' \<mapsto>
           JObj [(''keep'', JNum 0), (''x'', JNum 1), (''y'', JNum 2)])\<rparr>)
   \<and> writeToLocation (LocationAutomerge ''automerge:doc'' []) (JNum 5) Json world0 =
       (Some (AMTError ''only an object can be written to a document root''), world0)"
  using root_write_merges [of world0 "''automerge:doc''" "[(''keep'', JNum 0), (''x'', JNum 7)]"
          "JObj [(''x'', JNum 1), (''y'', JNum 2)]"]
        root_write_merges [of world0 "''automerge:doc''" "[(''keep'', JNum 0), (''x'', JNum 7)]"
          "JNum 5"]
  by (simp add: world0_def writeToLocation_def handle_change_def change_callback_def
        own_keys_def getprop_def builtin_member_def own_property_def document_set_def)

section \<open>Properties of the file-tree encoding\<close>

lemma nat_to_string_digits: "set (nat_to_string n) \<subseteq> set ''0123456789''"
proof (induction n rule: nat_to_string.induct)
  case (1 n)
  have digit: "''0123456789'' ! k \<in> set ''0123456789''" if "k < 10" for k
    using that by (intro nth_mem) simp
  show ?case
  proof (cases "n < 10")
    case True
    then show ?thesis
      using digit [of n] by (subst nat_to_string.simps) simp
  next
    case False
    then have "set (nat_to_string (n div 10)) \<subseteq> set ''0123456789''"
      using 1 by simp
    moreover have "''0123456789'' ! (n mod 10) \<in> set ''0123456789''"
      by (rule digit) simp
    ultimately show ?thesis
      using False by (subst nat_to_string.simps) simp
  qed
qed

lemma index_keys_digits: "key \<in> set (index_keys n) \<Longrightarrow> set key \<subseteq> set ''0123456789''"
  by (auto simp: index_keys_def dest: subsetD [OF nat_to_string_digits])

lemma own_keys_JArr: "own_keys (JArr xs) = index_keys (length xs)"
  by (simp add: own_keys_def index_keys_def)

lemma own_keys_JBytes: "own_keys (JBytes bs) = index_keys (length bs)"
  by (simp add: own_keys_def index_keys_def)

lemma contentType_not_inherited:
  "\<not> (''contentType'' = ''__proto__'' \<or> ''contentType'' \<in> set Object_prototype_members)"
  by (simp add: Object_prototype_members_def)

lemma contents_not_inherited:
  "\<not> (''contents'' = ''__proto__'' \<or> ''contents'' \<in> set Object_prototype_members)"
  by (simp add: Object_prototype_members_def)

lemma hasprop_content_keys:
  "hasprop ''contentType'' v = (''contentType'' \<in> set (own_keys v))"
  "hasprop ''contents'' v = (''contents'' \<in> set (own_keys v))"
  using contentType_not_inherited contents_not_inherited
  by (simp_all add: hasprop_def)

lemma not_file_JArr: "\<not> isAMFSFile (JArr xs)"
  using index_keys_digits [of "''contentType''" "length xs"]
  by (auto simp: isAMFSFile_def hasprop_content_keys own_keys_JArr)

lemma not_file_JBytes: "\<not> isAMFSFile (JBytes bs)"
  using index_keys_digits [of "''contentType''" "length bs"]
  by (auto simp: isAMFSFile_def hasprop_content_keys own_keys_JBytes)

lemma not_file_JProto: "\<not> isAMFSFile (JProto p)"
  by (simp add: isAMFSFile_def hasprop_content_keys own_keys_def)

lemma typeof_string: "(typeof v = ''string'') = (\<exists>s. v = JStr s)"
  by (cases v) auto

lemma typeof_object:
  "(typeof v = ''object'' \<and> truthy v) = (typeof v = ''object'' \<and> v \<noteq> JNull)"
  by (cases v) auto

lemma map_of_own_keys: "(key \<in> set (own_keys (JObj kvs))) = (map_of kvs key \<noteq> None)"
  by (simp add: own_keys_def map_of_eq_None_iff)

text \<open>
  Claim C4, as the code has it. A value is classified as a file exactly when it is an
  object with a property \<^verbatim>\<open>contentType\<close> that is a string and a property
  \<^verbatim>\<open>contents\<close> that is a string or a byte array; other properties are allowed. A
  value is classified as a directory exactly when it is a non-null object all of whose
  own property values are files or directories; the empty object is a directory.
\<close>

theorem AMFS_classification:
  "isAMFSFile node =
     (\<exists>kvs s c. node = JObj kvs \<and>
        map_of kvs ''contentType'' = Some (JStr s) \<and>
        map_of kvs ''contents'' = Some c \<and>
        (typeof c = ''string'' \<or> instanceof_Uint8Array c))
   \<and> isAMFSDirectory node =
     (typeof node = ''object'' \<and> node \<noteq> JNull \<and>
      (\<forall>x \<in> set (own_values node). isAMFSFile x \<or> isAMFSDirectory x))
   \<and> isAMFSDirectory (JObj [])"
proof -
  have is_file: "isAMFSFile node =
     (\<exists>kvs s c. node = JObj kvs \<and>
        map_of kvs ''contentType'' = Some (JStr s) \<and>
        map_of kvs ''contents'' = Some c \<and>
        (typeof c = ''string'' \<or> instanceof_Uint8Array c))"
  proof (cases node)
    case (JObj kvs)
    then show ?thesis
      by (auto simp: isAMFSFile_def hasprop_content_keys map_of_own_keys own_property_JObj
            typeof_string)
  next
    case (JArr xs)
    then show ?thesis using not_file_JArr [of xs] by simp
  next
    case (JBytes bs)
    then show ?thesis using not_file_JBytes [of bs] by simp
  next
    case (JProto p)
    then show ?thesis using not_file_JProto [of p] by simp
  qed (simp_all add: isAMFSFile_def)
  have dir: "isAMFSDirectory node =
     (typeof node = ''object'' \<and> node \<noteq> JNull \<and>
      (\<forall>x \<in> set (own_values node). isAMFSFile x \<or> isAMFSDirectory x))"
    using typeof_object [of node]
    by (subst isAMFSDirectory.simps) (auto simp: list_all_iff isAMFS.simps)
  have "isAMFSDirectory (JObj [])"
    by (subst isAMFSDirectory.simps) (simp add: own_values_def)
  with is_file dir show ?thesis by blast
qed

text \<open>
  The classification as stated with ``no other fields'' fails: an object with a third
  property is still classified as a file.
\<close>

theorem file_with_extra_field:
  "isAMFSFile (JObj [(''contentType'', JStr ''text/plain''), (''contents'', JStr ''hi''),
                     (''extra'', JNum 1)])
   \<and> own_keys (JObj [(''contentType'', JStr ''text/plain''), (''contents'', JStr ''hi''),
                     (''extra'', JNum 1)]) = [''contentType'', ''contents'', ''extra'']"
  by (simp add: isAMFSFile_def hasprop_def own_keys_def own_property_def)

theorem AMFS_classification_witness:
  "isAMFSDirectory (JObj [(''a'', JObj [(''contentType'', JStr ''x''), (''contents'', JStr ''1'')]),
                          (''b'', JObj [])])
   \<and> \<not> isAMFSDirectory (JObj [(''a'', JNum 1)])"
  using AMFS_classification
      [of "JObj [(''a'', JObj [(''contentType'', JStr ''x''), (''contents'', JStr ''1'')]),
                 (''b'', JObj [])]"]
    AMFS_classification [of "JObj [(''contentType'', JStr ''x''), (''contents'', JStr ''1'')]"]
    AMFS_classification [of "JObj [(''a'', JNum 1)]"]
    AMFS_classification [of "JNum 1"]
  by (simp add: own_values_def)

text \<open>
  Claim C10. An array whose elements are all file trees, the empty array included, is
  classified as a directory, and writing it in \<open>Fs\<close> mode to a file location
  succeeds: the directory is ensured at the path, and each element is written under
  the path followed by \<^verbatim>\<open>/\<close> and its index in decimal.
\<close>

theorem array_is_directory:
  assumes "list_all isAMFS xs"
  shows "isAMFSDirectory (JArr xs)
         \<and> writeToLocation (LocationFile p) (JArr xs) Fs w =
             (None, w\<lparr>filesystem := filesystem w @
                EnsureDir p #
                concat (map (\<lambda>entry. writeAMFS (snd entry) (p @ ''/'' @ fst entry))
                            (zip (map nat_to_string [0..<length xs]) xs))\<rparr>)"
proof -
  have dir: "isAMFSDirectory (JArr xs)"
    using assms by (subst isAMFSDirectory.simps) (simp add: own_values_def index_keys_def)
  then have "isAMFS (JArr xs)" by (simp add: isAMFS.simps)
  moreover have "writeAMFS (JArr xs) p =
      EnsureDir p #
      concat (map (\<lambda>entry. writeAMFS (snd entry) (p @ ''/'' @ fst entry))
                  (zip (map nat_to_string [0..<length xs]) xs))"
    by (subst writeAMFS.simps) (simp add: not_file_JArr index_keys_def)
  ultimately show ?thesis
    using dir by (simp add: writeToLocation_def)
qed

theorem array_is_directory_witness:
  "list_all isAMFS [JObj [(''contentType'', JStr ''t''), (''contents'', JStr ''hi'')], JArr []]
   \<and> writeToLocation (LocationFile ''out'')
        (JArr [JObj [(''contentType'', JStr ''t''), (''contents'', JStr ''hi'')], JArr []]) Fs world0 =
       (None, world0\<lparr>filesystem :=
          [EnsureDir ''out'', WriteFile ''out/0'' (Text ''hi''), EnsureDir ''out/1'']\<rparr>)"
proof -
  have is_file: "isAMFSFile (JObj [(''contentType'', JStr ''t''), (''contents'', JStr ''hi'')])"
    by (simp add: isAMFSFile_def hasprop_def own_keys_def own_property_def)
  have empty: "isAMFSDirectory (JArr [])"
    by (subst isAMFSDirectory.simps) (simp add: own_values_def index_keys_def)
  have all: "list_all isAMFS [JObj [(''contentType'', JStr ''t''), (''contents'', JStr ''hi'')], JArr []]"
    using is_file empty by (simp add: isAMFS.simps)
  have w0: "writeAMFS (JObj [(''contentType'', JStr ''t''), (''contents'', JStr ''hi'')]) ''out/0''
      = [WriteFile ''out/0'' (Text ''hi'')]"
    using is_file by (subst writeAMFS.simps) (simp add: file_contents_def own_property_def)
  have w1: "writeAMFS (JArr []) ''out/1'' = [EnsureDir ''out/1'']"
    by (subst writeAMFS.simps) (simp add: not_file_JArr index_keys_def)
  have idx: "nat_to_string 0 = ''0''" "nat_to_string (Suc 0) = ''1''"
    by (simp_all add: nat_to_string.simps)
  show ?thesis
    using array_is_directory [OF all, of "''out''" world0] all w0 w1 idx
    by (simp add: world0_def)
qed

section \<open>Properties of the JSON text written\<close>

lemma not_newline_nth:
  assumes "newline \<notin> set cs" and "n < length cs"
  shows "cs ! n \<noteq> newline"
  using assms by (metis nth_mem)

lemma hex_digit_not_newline: "n < 16 \<Longrightarrow> hex_digit n \<noteq> newline"
  unfolding hex_digit_def by (rule not_newline_nth) (simp_all add: newline_def)

lemma escape_char_no_newline: "newline \<notin> set (escape_char c)"
proof -
  have "hex_digit (of_char c div 16) \<noteq> newline" if "(of_char c :: nat) < 32"
    using that by (intro hex_digit_not_newline) simp
  moreover have "hex_digit (of_char c mod 16) \<noteq> newline"
    by (intro hex_digit_not_newline) simp
  ultimately show ?thesis
    by (auto simp: escape_char_def newline_def backslash_def dquote_def)
qed

lemma QuoteJSONString_no_newline: "newline \<notin> set (QuoteJSONString s)"
  using escape_char_no_newline by (auto simp: QuoteJSONString_def newline_def dquote_def)

lemma int_to_string_no_newline: "newline \<notin> set (int_to_string i)"
proof -
  have "newline \<notin> set (nat_to_string n)" for n
    using nat_to_string_digits [of n] by (auto simp: newline_def)
  then show ?thesis by (simp add: int_to_string_def newline_def)
qed

lemma Array_join_no_newline:
  "\<forall>x \<in> set xs. newline \<notin> set x \<Longrightarrow> newline \<notin> set sep \<Longrightarrow>
   newline \<notin> set (Array_join xs sep)"
  by (induction xs sep rule: Array_join.induct) auto

lemma assemble_compact_no_newline:
  assumes "\<forall>x \<in> set partial. newline \<notin> set x"
    and "newline \<notin> set opening" and "newline \<notin> set closing"
  shows "newline \<notin> set (assemble opening closing [] indent stepback partial)"
  using assms Array_join_no_newline [of partial "'',''"]
  by (simp add: assemble_def newline_def)

lemma compact_no_newline:
  "gap = [] \<Longrightarrow> SerializeJSONProperty gap indent key v = Some t \<Longrightarrow> newline \<notin> set t"
proof (induction gap indent key v arbitrary: t rule: SerializeJSONProperty.induct)
  case (1 gap indent key holder_value)
  note IH = "1.IH"
  note ser = "1.prems"(2) [unfolded SerializeJSONProperty.simps [of gap indent key holder_value]]
  show ?case
  proof (cases "replacer key holder_value")
    case JUndefined
    with ser show ?thesis by simp
  next
    case JNull
    with ser show ?thesis by (auto simp: newline_def)
  next
    case (JBool b)
    with ser show ?thesis by (auto simp: newline_def split: if_splits)
  next
    case (JNum n)
    with ser show ?thesis using int_to_string_no_newline by auto
  next
    case (JStr s)
    with ser show ?thesis using QuoteJSONString_no_newline by auto
  next
    case (JBytes bs)
    then show ?thesis by (simp add: replacer_not_bytes)
  next
    case (JProto p)
    with ser show ?thesis by (cases p) (auto simp: newline_def dquote_def)
  next
    case (JArr xs)
    let ?member = "\<lambda>entry.
        case SerializeJSONProperty gap (indent @ gap) (fst entry) (snd entry) of
          None \<Rightarrow> ''null''
        | Some text \<Rightarrow> text"
    have "newline \<notin> set x" if "x \<in> set (map ?member (own_entries (JArr xs)))" for x
    proof -
      from that obtain entry where
        entry: "entry \<in> set (own_entries (JArr xs))" and x: "x = ?member entry"
        by auto
      show ?thesis
      proof (cases "SerializeJSONProperty gap (indent @ gap) (fst entry) (snd entry)")
        case None
        with x show ?thesis by (simp add: newline_def)
      next
        case (Some member)
        from IH(2) [OF JArr entry \<open>gap = []\<close> Some] x Some show ?thesis by simp
      qed
    qed
    then have "\<forall>x \<in> set (map ?member (own_entries (JArr xs))). newline \<notin> set x"
      by blast
    from assemble_compact_no_newline [OF this, of "''[''" "'']''" "indent @ gap" indent]
    show ?thesis using ser JArr \<open>gap = []\<close> by (auto simp: newline_def)
  next
    case (JObj kvs)
    let ?member = "\<lambda>entry.
        case SerializeJSONProperty gap (indent @ gap) (fst entry) (snd entry) of
          None \<Rightarrow> []
        | Some text \<Rightarrow>
            [QuoteJSONString (fst entry) @ '':'' @ (if gap = [] then [] else '' '') @ text]"
    have "newline \<notin> set x"
      if "x \<in> set (concat (map ?member (own_entries (JObj kvs))))" for x
    proof -
      from that obtain entry where
        entry: "entry \<in> set (own_entries (JObj kvs))" and x: "x \<in> set (?member entry)"
        by auto
      show ?thesis
      proof (cases "SerializeJSONProperty gap (indent @ gap) (fst entry) (snd entry)")
        case None
        with x show ?thesis by simp
      next
        case (Some member)
        from IH(3) [OF JObj entry \<open>gap = []\<close> Some] x Some
          QuoteJSONString_no_newline [of "fst entry"] \<open>gap = []\<close>
        show ?thesis by (auto simp: newline_def)
      qed
    qed
    then have "\<forall>x \<in> set (concat (map ?member (own_entries (JObj kvs)))). newline \<notin> set x"
      by blast
    from assemble_compact_no_newline [OF this, of "''{''" "''}''" "indent @ gap" indent]
    show ?thesis using ser JObj \<open>gap = []\<close> by (auto simp: newline_def)
  qed
qed


lemma plus_string_last: "last (plus_string x [newline]) = newline"
  by (simp add: plus_string_def split: option.splits)

text \<open>
  Claim C1, as the code has it. In \<open>Json\<close> mode every value is written to a file
  location as the text of \<^verbatim>\<open>JSON.stringify\<close> with an indentation of two spaces
  followed by a newline, and to the pipe as the text of \<^verbatim>\<open>JSON.stringify\<close> with no
  indentation followed by a newline: both texts end in a newline. The compact text
  before that newline is a single line.
\<close>

theorem json_mode_text:
  "writeToLocation (LocationFile p) val Json w =
     (None, w\<lparr>filesystem := filesystem w @
        [WriteFile p (Text (plus_string (JSON_stringify val (Some 2)) [newline]))]\<rparr>)
   \<and> writeToLocation LocationPipe val Json w =
     (None, w\<lparr>stdout := stdout w @
        [Text (plus_string (JSON_stringify val None) [newline])]\<rparr>)
   \<and> last (plus_string (JSON_stringify val (Some 2)) [newline]) = newline
   \<and> last (plus_string (JSON_stringify val None) [newline]) = newline
   \<and> newline \<notin> set (plus_string (JSON_stringify val None) [])"
proof -
  have "newline \<notin> set (plus_string (JSON_stringify val None) [])"
  proof (cases "JSON_stringify val None")
    case None
    then show ?thesis by (simp add: plus_string_def newline_def)
  next
    case (Some t)
    then have "newline \<notin> set t"
      using compact_no_newline [of "[]" "[]" "[]" val t] by (simp add: JSON_stringify_def)
    with Some show ?thesis by (simp add: plus_string_def)
  qed
  then show ?thesis
    by (simp add: writeToLocation_def emit_def plus_string_last)
qed

text \<open>
  The claim that the text written to the pipe has no trailing newline fails on the
  example of the specification, \<^verbatim>\<open>{n: 5, s: "x"}\<close>: what is written to standard output
  is the compact text and then a newline.
\<close>

theorem pipe_text_has_trailing_newline:
  "writeToLocation LocationPipe (JObj [(''n'', JNum 5), (''s'', JStr ''x'')]) Json world0 =
     (None, world0\<lparr>stdout :=
        [Text (''{'' @ [dquote] @ ''n'' @ [dquote] @ '':5,'' @ [dquote] @ ''s'' @ [dquote] @
               '':'' @ [dquote] @ ''x'' @ [dquote] @ ''}'' @ [newline])]\<rparr>)"
  by (simp add: writeToLocation_def emit_def world0_def plus_string_def JSON_stringify_def
        SerializeJSONProperty.simps assemble_def QuoteJSONString_def escape_char_def
        int_to_string_def nat_to_string.simps dquote_def backslash_def newline_def)

text \<open>The same value with the indentation used for a file location.\<close>

lemma pretty_example:
  "JSON_stringify (JObj [(''n'', JNum 5), (''s'', JStr ''x'')]) (Some 2) =
     Some (''{'' @ [newline] @ ''  '' @ [dquote] @ ''n'' @ [dquote] @ '': 5,'' @ [newline] @
           ''  '' @ [dquote] @ ''s'' @ [dquote] @ '': '' @ [dquote] @ ''x'' @ [dquote] @
           [newline] @ ''}'')"
  by (simp add: JSON_stringify_def numeral_2_eq_2
        SerializeJSONProperty.simps assemble_def QuoteJSONString_def escape_char_def
        int_to_string_def nat_to_string.simps dquote_def backslash_def newline_def)

section \<open>Properties of watch mode\<close>





end
